theory Spec2Isabelle
  imports Main
begin

section \<open>Data model of \<open>trainer/vis.py\<close>\<close>

text \<open>
  The module post-processes the prediction arrays of a panoptic segmentation model.
  A NumPy array of rank two (height by width) is a list of rows, an array of rank three
  (height by width by channels) a list of rows of pixels. The element type is \<open>int\<close>:
  the module only divides, takes remainders, compares and indexes, so no operation
  leaves the range of the array's integer dtype, except the \<open>uint8\<close> cast of
  \<open>store_predictions\<close>, whose reduction modulo 256 is written out.

  Definitions keep the names of the source; a leading underscore is dropped
  (\<open>_get_fg_mask\<close> is \<open>get_fg_mask\<close>). The two long functions
  \<open>store_raw_predictions\<close> and \<open>store_predictions\<close> are cut into the stages
  their line numbers name.
\<close>

type_synonym array2 = "int list list"
type_synonym array3 = "int list list list"

datatype ndarray = Arr2 array2 | Arr3 array3

text \<open>The keys of the prediction dictionary that \<open>store_raw_predictions\<close> reads
  (the string constants of \<open>common\<close>).\<close>

datatype pred_key = TARGET_SEMANTIC_KEY | TARGET_PANOPTIC_KEY

text \<open>Every exception the modelled code can raise. The \<open>ValueError\<close>s carry the
  message they are raised with.\<close>

datatype value_error =
    UnsupportedDataset string
  | OverflowSemantic
  | OverflowInstanceG
  | OverflowInstanceGB
  | UnknownFormat string
  | ZeroSizeReduction
  | BroadcastMismatch

datatype error = KeyError pred_key | IndexError | ValueError value_error

text \<open>The fields of \<open>dataset.DatasetDescriptor\<close> that the module reads.\<close>

record dataset_descriptor =
  dataset_name :: string
  is_video_dataset :: bool
  panoptic_label_divisor :: int
  ignore_label :: int
  class_has_instances_list :: "int list"

section \<open>Train id to eval id\<close>

definition CITYSCAPES_TRAIN_ID_TO_EVAL_ID :: "int list" where
  "CITYSCAPES_TRAIN_ID_TO_EVAL_ID =
     [7, 8, 11, 12, 13, 17, 19, 20, 21, 22, 23, 24, 25, 26, 27, 28, 31, 32, 33, 0]"

text \<open>Lines 70 to 74: a zero array of \<open>max 256 (len table)\<close> entries whose leading slice
  is overwritten by the table.\<close>

definition to_eval_id_map :: "int list" where
  "to_eval_id_map =
     (let n = max 256 (length CITYSCAPES_TRAIN_ID_TO_EVAL_ID);
          zeros = replicate n (0::int)
      in CITYSCAPES_TRAIN_ID_TO_EVAL_ID @ drop (length CITYSCAPES_TRAIN_ID_TO_EVAL_ID) zeros)"

text \<open>NumPy integer-array indexing \<open>table[prediction]\<close>: an index \<open>i\<close> with
  \<open>-n \<le> i < 0\<close> counts from the end, an index outside \<open>[-n, n)\<close> raises
  \<open>IndexError\<close> for the whole expression.\<close>

definition np_index_ok :: "'a list \<Rightarrow> int \<Rightarrow> bool" where
  "np_index_ok table i = (- int (length table) \<le> i \<and> i < int (length table))"

definition np_item :: "'a list \<Rightarrow> int \<Rightarrow> 'a" where
  "np_item table i = table ! nat (if i < 0 then i + int (length table) else i)"

definition np_take :: "'a list \<Rightarrow> array2 \<Rightarrow> error + 'a list list" where
  "np_take table indices =
     (if list_all (list_all (np_index_ok table)) indices
      then Inr (map (map (np_item table)) indices)
      else Inl IndexError)"

definition convert_cityscapes_train_id_to_eval_id :: "array2 \<Rightarrow> error + array2" where
  "convert_cityscapes_train_id_to_eval_id prediction = np_take to_eval_id_map prediction"

section \<open>Decoding a panoptic id\<close>

text \<open>NumPy's integer \<open>//\<close> and \<open>%\<close> with a Python integer on the right: floor
  division and the remainder with the sign of the divisor, elementwise; a zero divisor
  gives 0 for both (with a warning, not an exception).\<close>

definition np_floordiv :: "int \<Rightarrow> int \<Rightarrow> int" where
  "np_floordiv x d = (if d = 0 then 0 else x div d)"

definition np_mod :: "int \<Rightarrow> int \<Rightarrow> int" where
  "np_mod x d = (if d = 0 then 0 else x mod d)"

text \<open>Lines 172 to 178: the semantic labels (remapped to eval ids when
  \<open>convert_to_eval\<close> is set) and the instance labels of a panoptic prediction.\<close>

definition predicted_semantic_labels :: "bool \<Rightarrow> int \<Rightarrow> array2 \<Rightarrow> error + array2" where
  "predicted_semantic_labels convert_to_eval divisor panoptic_prediction =
     (let labels = map (map (\<lambda>p. np_floordiv p divisor)) panoptic_prediction
      in if convert_to_eval then convert_cityscapes_train_id_to_eval_id labels
         else Inr labels)"

definition predicted_instance_labels :: "int \<Rightarrow> array2 \<Rightarrow> array2" where
  "predicted_instance_labels divisor panoptic_prediction =
     map (map (\<lambda>p. np_mod p divisor)) panoptic_prediction"

section \<open>Helpers from the libraries\<close>

text \<open>Python's substring test \<open>sub in s\<close> on strings.\<close>

fun startswith :: "string \<Rightarrow> string \<Rightarrow> bool" where
  "startswith s [] = True"
| "startswith [] (c # cs) = False"
| "startswith (x # xs) (c # cs) = (x = c \<and> startswith xs cs)"

fun str_in :: "string \<Rightarrow> string \<Rightarrow> bool" where
  "str_in sub [] = (sub = [])"
| "str_in sub (x # xs) = (startswith (x # xs) sub \<or> str_in sub xs)"

text \<open>\<open>os.path.join\<close> of two components (POSIX): an absolute second component
  replaces the first, otherwise the two are joined by exactly one separator.\<close>

definition path_join :: "string \<Rightarrow> string \<Rightarrow> string" where
  "path_join a b =
     (if startswith b ''/'' then b
      else if a = [] \<or> last a = CHR ''/'' then a @ b
      else a @ ''/'' @ b)"

text \<open>\<open>np.max\<close> of a whole array; NumPy raises a \<open>ValueError\<close> on an array
  without elements.\<close>

definition np_max :: "array2 \<Rightarrow> error + int" where
  "np_max a =
     (case concat a of
        [] \<Rightarrow> Inl (ValueError ZeroSizeReduction)
      | x # xs \<Rightarrow> Inr (fold max xs x))"

text \<open>\<open>np.zeros((h, w, 3))\<close> for the height and width of a given array, and the
  slice assignment \<open>outputs[:, :, k] = values\<close>. The assignment is only used with
  \<open>values\<close> of the height and width of \<open>outputs\<close>.\<close>

definition zeros3_like :: "array2 \<Rightarrow> array3" where
  "zeros3_like a = map (map (\<lambda>_. [0, 0, 0])) a"

definition assign_channel :: "nat \<Rightarrow> array2 \<Rightarrow> array3 \<Rightarrow> array3" where
  "assign_channel k vals outputs =
     map2 (\<lambda>row vrow. map2 (\<lambda>px v. px[k := v]) row vrow) outputs vals"

text \<open>Reading channel \<open>k\<close> of an array of rank three, \<open>a[:, :, k]\<close>.\<close>

definition channel :: "nat \<Rightarrow> array3 \<Rightarrow> array2" where
  "channel k a = map (map (\<lambda>px. px ! k)) a"

section \<open>\<open>store_raw_predictions\<close>\<close>

text \<open>
  The function writes files through \<open>vis_utils.save_annotation\<close>,
  \<open>tf.io.gfile.makedirs\<close> and \<open>np.save\<close>. The model returns the calls it made, in
  order, together with the exception that ended it, if any. \<open>save_annotation\<close>
  takes the array, the folder, the file name and the \<open>add_colormap\<close> flag;
  \<open>np.save\<close> the path of the file and the array.
\<close>

datatype fs_op =
    Makedirs string
  | Save_annotation ndarray string string bool
  | Np_save string array3

type_synonym outcome = "fs_op list \<times> error option"

text \<open>Lines 184 to 223: the dispatch on \<open>raw_panoptic_format\<close>, given the decoded
  labels, the zero-initialised output array and the calls made so far.\<close>

definition encode_panoptic ::
  "string \<Rightarrow> array2 \<Rightarrow> array2 \<Rightarrow> array3 \<Rightarrow> string \<Rightarrow> string \<Rightarrow> fs_op list \<Rightarrow> outcome" where
  "encode_panoptic raw_panoptic_format semantic_labels instance_labels panoptic_outputs
       output_folder image_filename fs =
     (if raw_panoptic_format = ''two_channel_png'' then
        (case np_max semantic_labels of
           Inl e \<Rightarrow> (fs, Some e)
         | Inr ms \<Rightarrow>
             if ms > 255 then (fs, Some (ValueError OverflowSemantic))
             else
               (case np_max instance_labels of
                  Inl e \<Rightarrow> (fs, Some e)
                | Inr mi \<Rightarrow>
                    if mi > 255 then (fs, Some (ValueError OverflowInstanceG))
                    else
                      (let out0 = assign_channel 0 semantic_labels panoptic_outputs;
                           out1 = assign_channel 1 instance_labels out0
                       in (fs @ [Save_annotation (Arr3 out1) output_folder image_filename False],
                           None))))
      else if raw_panoptic_format = ''three_channel_png'' then
        (case np_max semantic_labels of
           Inl e \<Rightarrow> (fs, Some e)
         | Inr ms \<Rightarrow>
             if ms > 255 then (fs, Some (ValueError OverflowSemantic))
             else
               (case np_max instance_labels of
                  Inl e \<Rightarrow> (fs, Some e)
                | Inr mi \<Rightarrow>
                    if mi > 65535 then (fs, Some (ValueError OverflowInstanceGB))
                    else
                      (let out0 = assign_channel 0 semantic_labels panoptic_outputs;
                           out1 = assign_channel 1
                                    (map (map (\<lambda>i. i div 256)) instance_labels) out0;
                           out2 = assign_channel 2
                                    (map (map (\<lambda>i. i mod 256)) instance_labels) out1
                       in (fs @ [Save_annotation (Arr3 out2) output_folder image_filename False],
                           None))))
      else if raw_panoptic_format = ''two_channel_numpy_array'' then
        (let out0 = assign_channel 0 semantic_labels panoptic_outputs;
             out1 = assign_channel 1 instance_labels out0
         in (fs @ [Np_save (path_join output_folder (image_filename @ ''.npy'')) out1], None))
      else (fs, Some (ValueError (UnknownFormat raw_panoptic_format))))"

text \<open>Lines 145 to 152: the optional conversion of the semantic prediction, with the
  check of the dataset name.\<close>

definition convert_semantic_prediction ::
  "bool \<Rightarrow> dataset_descriptor \<Rightarrow> array2 \<Rightarrow> error + array2" where
  "convert_semantic_prediction convert_to_eval dataset_info semantic_prediction =
     (if convert_to_eval then
        if str_in ''cityscapes'' (dataset_name dataset_info)
        then convert_cityscapes_train_id_to_eval_id semantic_prediction
        else Inl (ValueError (UnsupportedDataset (dataset_name dataset_info)))
      else Inr semantic_prediction)"

text \<open>Lines 153 to 157 and 180 to 183: the output folder, with the sequence
  subdirectory (and its creation) for a video dataset.\<close>

definition output_folder_of :: "dataset_descriptor \<Rightarrow> string \<Rightarrow> string \<Rightarrow> string \<Rightarrow> string" where
  "output_folder_of dataset_info save_dir kind sequence =
     (if is_video_dataset dataset_info
      then path_join (path_join save_dir kind) sequence
      else path_join save_dir kind)"

definition makedirs_of :: "dataset_descriptor \<Rightarrow> string \<Rightarrow> fs_op list" where
  "makedirs_of dataset_info output_folder =
     (if is_video_dataset dataset_info then [Makedirs output_folder] else [])"

text \<open>
  The whole function, from line 144 on. Lines 138 to 141 unwrap the batch dimension
  and decode the file name; \<open>predictions\<close> is the dictionary after them,
  \<open>image_filename\<close> the decoded name without its extension and \<open>sequence\<close> the
  decoded sequence name.
\<close>

definition store_raw_predictions ::
  "(pred_key \<rightharpoonup> array2) \<Rightarrow> string \<Rightarrow> dataset_descriptor \<Rightarrow> string \<Rightarrow> string \<Rightarrow>
     string \<Rightarrow> bool \<Rightarrow> outcome" where
  "store_raw_predictions predictions image_filename dataset_info save_dir sequence
       raw_panoptic_format convert_to_eval =
     (case predictions TARGET_SEMANTIC_KEY of
        None \<Rightarrow> ([], Some (KeyError TARGET_SEMANTIC_KEY))
      | Some semantic_prediction0 \<Rightarrow>
          (case convert_semantic_prediction convert_to_eval dataset_info semantic_prediction0 of
             Inl e \<Rightarrow> ([], Some e)
           | Inr semantic_prediction \<Rightarrow>
               (let output_folder = output_folder_of dataset_info save_dir ''raw_semantic'' sequence;
                    fs1 = makedirs_of dataset_info output_folder @
                          [Save_annotation (Arr2 semantic_prediction) output_folder
                             image_filename False]
                in case predictions TARGET_PANOPTIC_KEY of
                     None \<Rightarrow> (fs1, None)
                   | Some panoptic_prediction \<Rightarrow>
                       (let panoptic_outputs = zeros3_like panoptic_prediction
                        in case predicted_semantic_labels convert_to_eval
                                  (panoptic_label_divisor dataset_info) panoptic_prediction of
                             Inl e \<Rightarrow> (fs1, Some e)
                           | Inr semantic_labels \<Rightarrow>
                               (let instance_labels = predicted_instance_labels
                                      (panoptic_label_divisor dataset_info) panoptic_prediction;
                                    output_folder2 = output_folder_of dataset_info save_dir
                                      ''raw_panoptic'' sequence;
                                    fs2 = fs1 @ makedirs_of dataset_info output_folder2
                                in encode_panoptic raw_panoptic_format semantic_labels
                                     instance_labels panoptic_outputs output_folder2
                                     image_filename fs2)))))"

section \<open>\<open>store_predictions\<close>: foreground mask and error mask\<close>

text \<open>
  Of \<open>store_predictions\<close> the two computations that happen in the module itself are
  modelled: the foreground mask applied to the offset image and the error mask. Every
  other artifact is computed by \<open>vis_utils\<close>.
\<close>

text \<open>\<open>np.unique\<close>: the sorted distinct elements of an array.\<close>

definition np_unique :: "array2 \<Rightarrow> int list" where
  "np_unique a = sort (remdups (concat a))"

text \<open>Elementwise binary operations with NumPy's broadcasting along one axis: equal
  lengths pair up, an axis of length one is repeated, anything else raises.\<close>

fun sequence_r :: "(error + 'a) list \<Rightarrow> error + 'a list" where
  "sequence_r [] = Inr []"
| "sequence_r (r # rs) =
     (case r of
        Inl e \<Rightarrow> Inl e
      | Inr v \<Rightarrow> (case sequence_r rs of Inl e \<Rightarrow> Inl e | Inr vs \<Rightarrow> Inr (v # vs)))"

definition broadcast_axis ::
  "('a \<Rightarrow> 'b \<Rightarrow> error + 'c) \<Rightarrow> 'a list \<Rightarrow> 'b list \<Rightarrow> error + 'c list" where
  "broadcast_axis f xs ys =
     (if length xs = length ys then sequence_r (map2 f xs ys)
      else if length xs = 1 then sequence_r (map (f (hd xs)) ys)
      else if length ys = 1 then sequence_r (map (\<lambda>x. f x (hd ys)) xs)
      else Inl (ValueError BroadcastMismatch))"

definition elementwise2 ::
  "('a \<Rightarrow> 'b \<Rightarrow> 'c) \<Rightarrow> 'a list list \<Rightarrow> 'b list list \<Rightarrow> error + 'c list list" where
  "elementwise2 f = broadcast_axis (broadcast_axis (\<lambda>x y. Inr (f x y)))"

definition elementwise3 ::
  "('a \<Rightarrow> 'b \<Rightarrow> 'c) \<Rightarrow> 'a list list list \<Rightarrow> 'b list list list \<Rightarrow> error + 'c list list list" where
  "elementwise3 f = broadcast_axis (broadcast_axis (broadcast_axis (\<lambda>x y. Inr (f x y))))"

text \<open>Lines 78 to 84. The loop runs over the distinct class ids of the label map and
  accumulates the pixels of the thing classes; the mask and the comparison have the shape
  of the label map, so \<open>np.logical_or\<close> pairs them elementwise.\<close>

definition logical_or :: "bool list list \<Rightarrow> bool list list \<Rightarrow> bool list list" where
  "logical_or a b = map2 (map2 (\<or>)) a b"

definition np_equal :: "array2 \<Rightarrow> int \<Rightarrow> bool list list" where
  "np_equal a c = map (map (\<lambda>x. x = c)) a"

definition get_fg_mask :: "array2 \<Rightarrow> int list \<Rightarrow> array3" where
  "get_fg_mask label_map thing_list =
     (let fg_mask0 = map (map (\<lambda>_. False)) label_map;
          fg_mask1 = fold (\<lambda>class_id fg_mask.
                             if class_id \<in> set thing_list
                             then logical_or fg_mask (np_equal label_map class_id)
                             else fg_mask)
                       (np_unique label_map) fg_mask0;
          fg_mask2 = map (map (\<lambda>b. [b])) fg_mask1
      in map (map (map (\<lambda>b. if b then 1 else 0))) fg_mask2)"

text \<open>Lines 284 to 287 (and 296 to 298 for the label): the flow-colour image of the
  offsets, an array of height by width by three that \<open>vis_utils.flow_to_color\<close>
  returns, times the foreground mask of the semantic map.\<close>

definition masked_offset_rgb :: "array3 \<Rightarrow> array2 \<Rightarrow> int list \<Rightarrow> error + array3" where
  "masked_offset_rgb center_offset_rgb semantic thing_list =
     elementwise3 (*) center_offset_rgb (get_fg_mask semantic thing_list)"

text \<open>Lines 328 to 331. The label is cast to \<open>uint8\<close> first, which reduces it modulo
  256; the Boolean mask is cast to \<open>uint8\<close> and multiplied by 255 in that type.\<close>

definition astype_uint8 :: "int \<Rightarrow> int" where
  "astype_uint8 x = x mod 256"

definition error_prediction :: "array2 \<Rightarrow> array2 \<Rightarrow> int \<Rightarrow> error + array2" where
  "error_prediction semantic_prediction gt_semantic_raw ignore =
     (let label = map (map astype_uint8) gt_semantic_raw
      in case elementwise2 (\<noteq>) semantic_prediction label of
           Inl e \<Rightarrow> Inl e
         | Inr differs \<Rightarrow>
             (case elementwise2 (\<and>) differs (map (map (\<lambda>l. l \<noteq> ignore)) label) of
                Inl e \<Rightarrow> Inl e
              | Inr error_mask \<Rightarrow>
                  Inr (map (map (\<lambda>b. astype_uint8 ((if b then 1 else 0) * 255))) error_mask)))"

text \<open>The errors that the panoptic encodings raise for a value that does not fit, and
  the error for an unknown format.\<close>

fun is_overflow :: "error option \<Rightarrow> bool" where
  "is_overflow (Some (ValueError OverflowSemantic)) = True"
| "is_overflow (Some (ValueError OverflowInstanceG)) = True"
| "is_overflow (Some (ValueError OverflowInstanceGB)) = True"
| "is_overflow _ = False"

fun is_unknown_format :: "error option \<Rightarrow> bool" where
  "is_unknown_format (Some (ValueError (UnknownFormat _))) = True"
| "is_unknown_format _ = False"

section \<open>Example inputs\<close>

text \<open>Two dataset descriptors used for the concrete evaluations below: an image
  dataset of the cityscapes family and a video dataset outside it.\<close>

definition example_cityscapes :: dataset_descriptor where
  "example_cityscapes =
     \<lparr>dataset_name = ''cityscapes_panoptic'', is_video_dataset = False,
      panoptic_label_divisor = 1000, ignore_label = 255,
      class_has_instances_list = [11, 12, 13, 14, 15, 16, 17, 18]\<rparr>"

definition example_video :: dataset_descriptor where
  "example_video =
     \<lparr>dataset_name = ''kitti_step'', is_video_dataset = True,
      panoptic_label_divisor = 100000, ignore_label = 255,
      class_has_instances_list = [11, 13]\<rparr>"

section \<open>Auxiliary facts about lists and arrays\<close>

lemma map2_map_map: "map2 f (map g xs) (map h xs) = map (\<lambda>x. f (g x) (h x)) xs"
  by (induction xs) simp_all

lemma assign_channel_maps:
  "assign_channel k (map (map v) a) (map (map px) a) =
     map (map (\<lambda>p. (px p)[k := v p])) a"
  unfolding assign_channel_def by (simp add: map2_map_map)

lemma channel_maps: "channel k (map (map px) a) = map (map (\<lambda>p. px p ! k)) a"
  unfolding channel_def by simp

lemma fold_max_eq_Max: "fold max xs (x::int) = Max (set (x # xs))"
  by (rule Max.set_eq_fold [symmetric])

lemma np_max_Inr_iff:
  "np_max a = Inr m \<longleftrightarrow> concat a \<noteq> [] \<and> m = Max (set (concat a))"
proof (cases "concat a")
  case Nil
  then show ?thesis by (simp add: np_max_def del: concat_eq_Nil_conv)
next
  case (Cons x xs)
  then show ?thesis
    by (simp add: np_max_def fold_max_eq_Max del: concat_eq_Nil_conv set_simps) metis
qed

lemma np_max_Inl_iff:
  "np_max a = Inl e \<longleftrightarrow> concat a = [] \<and> e = ValueError ZeroSizeReduction"
  by (cases "concat a") (simp_all add: np_max_def del: concat_eq_Nil_conv, metis)

lemma np_max_greater_iff:
  assumes "np_max a = Inr m"
  shows "k < m \<longleftrightarrow> (\<exists>row\<in>set a. \<exists>x\<in>set row. k < x)"
proof -
  from assms have ne: "set (concat a) \<noteq> {}" and m: "m = Max (set (concat a))"
    by (simp_all add: np_max_Inr_iff)
  have "k < Max (set (concat a)) \<longleftrightarrow> (\<exists>x\<in>set (concat a). k < x)"
    using ne by (simp add: Max_gr_iff)
  with m show ?thesis by auto
qed

lemma concat_map_map_Nil: "concat (map (map f) a) = [] \<longleftrightarrow> concat a = []"
  by (induction a) simp_all

section \<open>Properties of the lookup table\<close>

lemma length_train_id_table: "length CITYSCAPES_TRAIN_ID_TO_EVAL_ID = 20"
  by (simp add: CITYSCAPES_TRAIN_ID_TO_EVAL_ID_def)

lemma to_eval_id_map_eq:
  "to_eval_id_map = CITYSCAPES_TRAIN_ID_TO_EVAL_ID @ replicate 236 0"
  by (simp add: to_eval_id_map_def length_train_id_table)

lemma length_to_eval_id_map: "length to_eval_id_map = 256"
  by (simp add: to_eval_id_map_eq length_train_id_table)

lemma to_eval_id_map_padding:
  assumes "20 \<le> k" and "k < 256"
  shows "to_eval_id_map ! k = 0"
  using assms by (simp add: to_eval_id_map_eq nth_append length_train_id_table)

lemma to_eval_id_map_listed:
  assumes "k < 20"
  shows "to_eval_id_map ! k = CITYSCAPES_TRAIN_ID_TO_EVAL_ID ! k"
  using assms by (simp add: to_eval_id_map_eq nth_append length_train_id_table)

lemma np_item_to_eval_id_map:
  assumes "0 \<le> t" and "t \<le> 255"
  shows "np_item to_eval_id_map t =
           (if t < 20 then CITYSCAPES_TRAIN_ID_TO_EVAL_ID ! nat t else 0)"
proof (cases "t < 20")
  case True
  with assms have "nat t < 20" by simp
  with True assms show ?thesis
    by (simp add: np_item_def to_eval_id_map_listed)
next
  case False
  with assms have "20 \<le> nat t" and "nat t < 256" by simp_all
  with False assms show ?thesis
    by (simp add: np_item_def to_eval_id_map_padding)
qed

lemma np_take_in_range:
  assumes "\<forall>row\<in>set a. \<forall>t\<in>set row. 0 \<le> t \<and> t < int (length table)"
  shows "np_take table a = Inr (map (map (\<lambda>t. table ! nat t)) a)"
proof -
  have "np_index_ok table t" if "row \<in> set a" and "t \<in> set row" for row t
  proof -
    from assms that have "0 \<le> t \<and> t < int (length table)" by blast
    then show ?thesis by (simp add: np_index_ok_def)
  qed
  then have ok: "list_all (list_all (np_index_ok table)) a"
    by (simp add: list_all_iff)
  have "np_item table t = table ! nat t" if "row \<in> set a" and "t \<in> set row" for row t
  proof -
    from assms that have "0 \<le> t" by blast
    then show ?thesis by (simp add: np_item_def)
  qed
  then have "map (map (np_item table)) a = map (map (\<lambda>t. table ! nat t)) a"
    by simp
  with ok show ?thesis by (simp add: np_take_def)
qed

section \<open>Facts about \<open>store_raw_predictions\<close>\<close>

lemma predicted_semantic_labels_maps:
  assumes "predicted_semantic_labels c d pan = Inr sem"
  obtains f where "sem = map (map f) pan"
proof (cases c)
  case True
  with assms have "sem = map (map (\<lambda>p. np_item to_eval_id_map (np_floordiv p d))) pan"
    by (simp add: predicted_semantic_labels_def convert_cityscapes_train_id_to_eval_id_def
        np_take_def comp_def Let_def split: if_splits)
  then show ?thesis by (rule that)
next
  case False
  with assms have "sem = map (map (\<lambda>p. np_floordiv p d)) pan"
    by (simp add: predicted_semantic_labels_def)
  then show ?thesis by (rule that)
qed

lemma predicted_instance_labels_maps:
  "predicted_instance_labels d pan = map (map (\<lambda>p. np_mod p d)) pan"
  by (simp add: predicted_instance_labels_def)

lemma two_channels_assigned:
  "assign_channel (Suc 0) (map (map g) pan)
     (assign_channel 0 (map (map f) pan) (zeros3_like pan)) =
     map (map (\<lambda>p. [f p, g p, 0])) pan"
  by (simp add: zeros3_like_def assign_channel_maps)

lemma three_channels_assigned:
  "assign_channel 2 (map (map h) pan)
     (assign_channel (Suc 0) (map (map g) pan)
        (assign_channel 0 (map (map f) pan) (zeros3_like pan))) =
     map (map (\<lambda>p. [f p, g p, h p])) pan"
  by (simp add: zeros3_like_def assign_channel_maps)

lemma store_reaches_encode:
  assumes "predictions TARGET_SEMANTIC_KEY = Some sp"
    and "convert_semantic_prediction c di sp = Inr sp'"
    and "predictions TARGET_PANOPTIC_KEY = Some pan"
    and "predicted_semantic_labels c (panoptic_label_divisor di) pan = Inr sem"
  shows "store_raw_predictions predictions fn di sd seq fmt c =
           encode_panoptic fmt sem
             (predicted_instance_labels (panoptic_label_divisor di) pan) (zeros3_like pan)
             (output_folder_of di sd ''raw_panoptic'' seq) fn
             (makedirs_of di (output_folder_of di sd ''raw_semantic'' seq) @
              [Save_annotation (Arr2 sp') (output_folder_of di sd ''raw_semantic'' seq) fn False] @
              makedirs_of di (output_folder_of di sd ''raw_panoptic'' seq))"
  using assms by (simp add: store_raw_predictions_def Let_def)

lemma encode_empty_png:
  assumes "concat pan = []"
    and "fmt = ''two_channel_png'' \<or> fmt = ''three_channel_png''"
  shows "encode_panoptic fmt (map (map f) pan) inst outputs folder fn fs =
           (fs, Some (ValueError ZeroSizeReduction))"
proof -
  from assms(1) have "concat (map (map f) pan) = []"
    by (simp only: concat_map_map_Nil)
  then have "np_max (map (map f) pan) = Inl (ValueError ZeroSizeReduction)"
    by (simp only: np_max_Inl_iff)
  with assms(2) show ?thesis
    by (auto simp: encode_panoptic_def)
qed

lemma encode_two_channel_png:
  assumes "np_max (map (map f) pan) = Inr ms" and "np_max (map (map g) pan) = Inr mi"
  shows "encode_panoptic ''two_channel_png'' (map (map f) pan) (map (map g) pan)
           (zeros3_like pan) folder fn fs =
         (if 255 < ms then (fs, Some (ValueError OverflowSemantic))
          else if 255 < mi then (fs, Some (ValueError OverflowInstanceG))
          else (fs @ [Save_annotation (Arr3 (map (map (\<lambda>p. [f p, g p, 0])) pan)) folder fn False],
                None))"
  using assms by (simp add: encode_panoptic_def Let_def two_channels_assigned)

lemma encode_three_channel_png:
  assumes "np_max (map (map f) pan) = Inr ms" and "np_max (map (map g) pan) = Inr mi"
  shows "encode_panoptic ''three_channel_png'' (map (map f) pan) (map (map g) pan)
           (zeros3_like pan) folder fn fs =
         (if 255 < ms then (fs, Some (ValueError OverflowSemantic))
          else if 65535 < mi then (fs, Some (ValueError OverflowInstanceGB))
          else (fs @ [Save_annotation
                        (Arr3 (map (map (\<lambda>p. [f p, g p div 256, g p mod 256])) pan))
                        folder fn False],
                None))"
proof -
  have "assign_channel 2 (map (map (\<lambda>i. i mod 256)) (map (map g) pan))
          (assign_channel (Suc 0) (map (map (\<lambda>i. i div 256)) (map (map g) pan))
             (assign_channel 0 (map (map f) pan) (zeros3_like pan))) =
        map (map (\<lambda>p. [f p, g p div 256, g p mod 256])) pan"
    using three_channels_assigned [of "\<lambda>p. g p mod 256" pan "\<lambda>p. g p div 256" f]
    by (simp add: comp_def)
  with assms show ?thesis
    by (simp add: encode_panoptic_def Let_def)
qed


lemma encode_unknown_format:
  assumes "fmt \<noteq> ''two_channel_png''" and "fmt \<noteq> ''three_channel_png''"
    and "fmt \<noteq> ''two_channel_numpy_array''"
  shows "encode_panoptic fmt sem inst outputs folder fn fs =
           (fs, Some (ValueError (UnknownFormat fmt)))"
  using assms by (simp add: encode_panoptic_def)

lemma np_max_total:
  assumes "concat pan \<noteq> []"
  obtains m where "np_max (map (map f) pan) = Inr m"
proof -
  from assms have "concat (map (map f) pan) \<noteq> []"
    by (simp only: concat_map_map_Nil not_False_eq_True)
  then have "np_max (map (map f) pan) = Inr (Max (set (concat (map (map f) pan))))"
    by (simp only: np_max_Inr_iff simp_thms)
  then show ?thesis by (rule that)
qed

text \<open>Without \<open>convert_to_eval\<close> neither the conversion of the semantic prediction
  nor the decoding can raise; with it, every label that reaches the comparison is an
  entry of the table, at most 33.\<close>

lemma convert_semantic_prediction_False:
  "convert_semantic_prediction False di sp = Inr sp"
  by (simp add: convert_semantic_prediction_def)

lemma predicted_semantic_labels_False:
  "predicted_semantic_labels False d pan = Inr (map (map (\<lambda>p. np_floordiv p d)) pan)"
  by (simp add: predicted_semantic_labels_def)

lemma to_eval_id_map_le:
  assumes "x \<in> set to_eval_id_map"
  shows "x \<le> 33"
  using assms by (auto simp: to_eval_id_map_eq CITYSCAPES_TRAIN_ID_TO_EVAL_ID_def)

lemma np_item_in_table:
  assumes "np_index_ok table i"
  shows "np_item table i \<in> set table"
proof -
  from assms have "nat (if i < 0 then i + int (length table) else i) < length table"
    by (auto simp: np_index_ok_def)
  then show ?thesis
    unfolding np_item_def by (rule nth_mem)
qed

lemma converted_labels_bounded:
  assumes "predicted_semantic_labels True d pan = Inr sem" and "np_max sem = Inr m"
  shows "m \<le> 33"
proof -
  define labels where "labels = map (map (\<lambda>p. np_floordiv p d)) pan"
  from assms(1) have ok: "list_all (list_all (np_index_ok to_eval_id_map)) labels"
    and sem: "sem = map (map (np_item to_eval_id_map)) labels"
    by (simp_all add: predicted_semantic_labels_def convert_cityscapes_train_id_to_eval_id_def
        np_take_def labels_def Let_def split: if_splits)
  from assms(2) have "concat sem \<noteq> []" and "m = Max (set (concat sem))"
    using np_max_Inr_iff [of sem m] by blast+
  then have "m \<in> set (concat sem)"
    using Max_in [of "set (concat sem)"] by simp
  then obtain row i where "row \<in> set labels" and "i \<in> set row"
    and m: "m = np_item to_eval_id_map i"
    by (auto simp: sem)
  with ok have "np_index_ok to_eval_id_map i"
    by (auto simp: list_all_iff)
  then have "m \<in> set to_eval_id_map"
    unfolding m by (rule np_item_in_table)
  then show ?thesis by (rule to_eval_id_map_le)
qed

text \<open>The five ways a call of \<open>store_raw_predictions\<close> can go.\<close>

lemma store_raw_predictions_cases:
  fixes predictions fn di sd seq fmt c
  defines "folder1 \<equiv> output_folder_of di sd ''raw_semantic'' seq"
    and "folder2 \<equiv> output_folder_of di sd ''raw_panoptic'' seq"
    and "run \<equiv> store_raw_predictions predictions fn di sd seq fmt c"
  obtains
    (no_semantic) "predictions TARGET_SEMANTIC_KEY = None"
      "run = ([], Some (KeyError TARGET_SEMANTIC_KEY))"
  | (convert_fails) sp e where "predictions TARGET_SEMANTIC_KEY = Some sp"
      "convert_semantic_prediction c di sp = Inl e" "run = ([], Some e)"
  | (no_panoptic) sp sp' where "predictions TARGET_SEMANTIC_KEY = Some sp"
      "convert_semantic_prediction c di sp = Inr sp'"
      "predictions TARGET_PANOPTIC_KEY = None"
      "run = (makedirs_of di folder1 @ [Save_annotation (Arr2 sp') folder1 fn False], None)"
  | (decode_fails) sp sp' pan e where "predictions TARGET_SEMANTIC_KEY = Some sp"
      "convert_semantic_prediction c di sp = Inr sp'"
      "predictions TARGET_PANOPTIC_KEY = Some pan"
      "predicted_semantic_labels c (panoptic_label_divisor di) pan = Inl e"
      "run = (makedirs_of di folder1 @ [Save_annotation (Arr2 sp') folder1 fn False], Some e)"
  | (encode) sp sp' pan sem where "predictions TARGET_SEMANTIC_KEY = Some sp"
      "convert_semantic_prediction c di sp = Inr sp'"
      "predictions TARGET_PANOPTIC_KEY = Some pan"
      "predicted_semantic_labels c (panoptic_label_divisor di) pan = Inr sem"
      "run = encode_panoptic fmt sem
               (predicted_instance_labels (panoptic_label_divisor di) pan) (zeros3_like pan)
               folder2 fn
               (makedirs_of di folder1 @ [Save_annotation (Arr2 sp') folder1 fn False] @
                makedirs_of di folder2)"
proof (cases "predictions TARGET_SEMANTIC_KEY")
  case None
  then have "run = ([], Some (KeyError TARGET_SEMANTIC_KEY))"
    by (simp add: run_def store_raw_predictions_def)
  with None show thesis by (rule no_semantic)
next
  case (Some sp)
  show thesis
  proof (cases "convert_semantic_prediction c di sp")
    case (Inl e)
    with Some have "run = ([], Some e)"
      by (simp add: run_def store_raw_predictions_def)
    with Some Inl show thesis by (rule convert_fails)
  next
    case (Inr sp')
    show thesis
    proof (cases "predictions TARGET_PANOPTIC_KEY")
      case None
      with Some Inr
      have "run = (makedirs_of di folder1 @ [Save_annotation (Arr2 sp') folder1 fn False], None)"
        by (simp add: run_def store_raw_predictions_def Let_def folder1_def)
      with Some Inr None show thesis by (rule no_panoptic)
    next
      case pan: (Some pan)
      show thesis
      proof (cases "predicted_semantic_labels c (panoptic_label_divisor di) pan")
        case e: (Inl e)
        with Some Inr pan
        have "run = (makedirs_of di folder1 @ [Save_annotation (Arr2 sp') folder1 fn False],
                     Some e)"
          by (simp add: run_def store_raw_predictions_def Let_def folder1_def)
        with Some Inr pan e show thesis by (rule decode_fails)
      next
        case sem: (Inr sem)
        with Some Inr pan
        have "run = encode_panoptic fmt sem
               (predicted_instance_labels (panoptic_label_divisor di) pan) (zeros3_like pan)
               folder2 fn
               (makedirs_of di folder1 @ [Save_annotation (Arr2 sp') folder1 fn False] @
                makedirs_of di folder2)"
          by (simp add: run_def store_reaches_encode folder1_def folder2_def)
        with Some Inr pan sem show thesis by (rule encode)
      qed
    qed
  qed
qed

lemma convert_semantic_prediction_error:
  assumes "convert_semantic_prediction c di sp = Inl e"
  shows "e = IndexError \<or> e = ValueError (UnsupportedDataset (dataset_name di))"
  using assms
  by (auto simp: convert_semantic_prediction_def convert_cityscapes_train_id_to_eval_id_def
      np_take_def split: if_splits)

lemma predicted_semantic_labels_error:
  assumes "predicted_semantic_labels c d pan = Inl e"
  shows "e = IndexError"
  using assms
  by (auto simp: predicted_semantic_labels_def convert_cityscapes_train_id_to_eval_id_def
      np_take_def Let_def split: if_splits)

lemma encode_panoptic_keeps_calls:
  "\<exists>rest. fst (encode_panoptic fmt sem inst outputs folder fn fs) = fs @ rest"
  by (simp add: encode_panoptic_def Let_def split: sum.split)

lemma startswith_iff: "startswith s sub \<longleftrightarrow> (\<exists>q. s = sub @ q)"
  by (induction s sub rule: startswith.induct) auto

lemma str_in_iff: "str_in sub s \<longleftrightarrow> (\<exists>p q. s = p @ sub @ q)"
proof (induction s)
  case Nil
  show ?case by auto
next
  case (Cons x xs)
  have "(\<exists>p q. x # xs = p @ sub @ q) \<longleftrightarrow>
        (\<exists>q. x # xs = sub @ q) \<or> (\<exists>p q. xs = p @ sub @ q)"
  proof
    assume "\<exists>p q. x # xs = p @ sub @ q"
    then obtain p q where pq: "x # xs = p @ sub @ q" by blast
    show "(\<exists>q. x # xs = sub @ q) \<or> (\<exists>p q. xs = p @ sub @ q)"
    proof (cases p)
      case Nil
      with pq show ?thesis by auto
    next
      case (Cons y ys)
      with pq have "xs = ys @ sub @ q" by simp
      then show ?thesis by blast
    qed
  next
    assume "(\<exists>q. x # xs = sub @ q) \<or> (\<exists>p q. xs = p @ sub @ q)"
    then show "\<exists>p q. x # xs = p @ sub @ q"
    proof
      assume "\<exists>q. x # xs = sub @ q"
      then obtain q where "x # xs = [] @ sub @ q" by auto
      then show ?thesis by blast
    next
      assume "\<exists>p q. xs = p @ sub @ q"
      then obtain p q where "x # xs = (x # p) @ sub @ q" by auto
      then show ?thesis by blast
    qed
  qed
  with Cons show ?case by (simp add: startswith_iff)
qed

lemma store_without_panoptic_key:
  assumes "predictions TARGET_PANOPTIC_KEY = None"
  shows "store_raw_predictions predictions fn di sd seq fmt c =
         store_raw_predictions predictions fn di sd seq fmt' c"
  using assms by (simp add: store_raw_predictions_def Let_def split: option.split sum.split)

section \<open>Facts about the masks of \<open>store_predictions\<close>\<close>

lemma sequence_r_map_Inr: "sequence_r (map (\<lambda>x. Inr (k x)) xs) = Inr (map k xs)"
  by (induction xs) simp_all

lemma broadcast_axis_maps:
  assumes "\<And>z. z \<in> set zs \<Longrightarrow> f (g z) (h z) = Inr (k z)"
  shows "broadcast_axis f (map g zs) (map h zs) = Inr (map k zs)"
proof -
  have "map2 f (map g zs) (map h zs) = map (\<lambda>z. f (g z) (h z)) zs"
    by (rule map2_map_map)
  also have "\<dots> = map (\<lambda>z. Inr (k z)) zs"
    using assms by simp
  finally show ?thesis
    by (simp add: broadcast_axis_def sequence_r_map_Inr)
qed

lemma elementwise2_maps:
  "elementwise2 f (map (map g) zss) (map (map h) zss) =
     Inr (map (map (\<lambda>z. f (g z) (h z))) zss)"
  unfolding elementwise2_def
  by (rule broadcast_axis_maps) (rule broadcast_axis_maps, rule refl)

text \<open>Two arrays of the same height and width are the two projections of the array of
  their pixel pairs.\<close>

lemma unzip_rows_both:
  assumes "map length a = map length b"
  shows "map (map fst) (map2 zip a b) = a \<and> map (map snd) (map2 zip a b) = b"
  using assms
proof (induction a arbitrary: b)
  case Nil
  then show ?case by simp
next
  case (Cons r a)
  then obtain r' b' where b: "b = r' # b'" by (cases b) auto
  with Cons.prems have "length r = length r'" and "map length a = map length b'"
    by simp_all
  with Cons.IH [of b'] b show ?case by simp
qed

lemma unzip_rows:
  assumes "map length a = map length b"
  shows "a = map (map fst) (map2 zip a b)" and "b = map (map snd) (map2 zip a b)"
  using unzip_rows_both [OF assms] by (rule conjunct1 [THEN sym], rule conjunct2 [THEN sym])

lemma map2_as_rows:
  "map2 (map2 f) a b = map (map (\<lambda>(x, y). f x y)) (map2 zip a b)"
  by (simp add: split_def)

lemma scale_pixel: "broadcast_axis (\<lambda>x y. Inr (x * y)) px [m] = Inr (map (\<lambda>x. x * m) px)"
proof (cases "length px = 1")
  case True
  then obtain a where "px = [a]"
    by (cases px) auto
  then show ?thesis by (simp add: broadcast_axis_def)
next
  case False
  then have "broadcast_axis (\<lambda>x y. Inr (x * y)) px [m] =
               sequence_r (map (\<lambda>x. Inr (x * m)) px)"
    by (simp add: broadcast_axis_def)
  then show ?thesis by (simp add: sequence_r_map_Inr)
qed

lemma logical_or_maps:
  "logical_or (map (map P) a) (map (map Q) a) = map (map (\<lambda>x. P x \<or> Q x)) a"
  by (simp add: logical_or_def map2_map_map)

lemma fg_mask_loop:
  "fold (\<lambda>class_id fg_mask.
            if class_id \<in> set thing_list
            then logical_or fg_mask (np_equal label_map class_id)
            else fg_mask)
     classes (map (map P) label_map) =
   map (map (\<lambda>x. P x \<or> (x \<in> set classes \<and> x \<in> set thing_list))) label_map"
proof (induction classes arbitrary: P)
  case Nil
  show ?case by simp
next
  case (Cons c classes)
  show ?case
  proof (cases "c \<in> set thing_list")
    case True
    have "logical_or (map (map P) label_map) (np_equal label_map c) =
            map (map (\<lambda>x. P x \<or> x = c)) label_map"
      by (simp add: np_equal_def logical_or_maps)
    with True Cons.IH [of "\<lambda>x. P x \<or> x = c"] show ?thesis by auto
  next
    case False
    with Cons.IH [of P] show ?thesis by auto
  qed
qed

lemma set_np_unique: "set (np_unique a) = set (concat a)"
  by (simp add: np_unique_def)

lemma get_fg_mask_eq:
  "get_fg_mask label_map thing_list =
     map (map (\<lambda>c. [if c \<in> set thing_list then 1 else 0])) label_map"
proof -
  have "fold (\<lambda>class_id fg_mask.
            if class_id \<in> set thing_list
            then logical_or fg_mask (np_equal label_map class_id)
            else fg_mask)
          (np_unique label_map) (map (map (\<lambda>_. False)) label_map) =
        map (map (\<lambda>x. False \<or> (x \<in> set (np_unique label_map) \<and> x \<in> set thing_list)))
          label_map"
    by (rule fg_mask_loop)
  also have "\<dots> = map (map (\<lambda>x. x \<in> set thing_list)) label_map"
    by (auto simp: set_np_unique)
  finally show ?thesis
    by (simp add: get_fg_mask_def comp_def)
qed

text \<open>The defining equations that evaluate \<open>store_raw_predictions\<close> on a concrete
  input.\<close>

lemmas model_defs =
  store_raw_predictions_def convert_semantic_prediction_def predicted_semantic_labels_def
  predicted_instance_labels_def convert_cityscapes_train_id_to_eval_id_def np_take_def
  np_index_ok_def np_item_def np_floordiv_def np_mod_def encode_panoptic_def np_max_def
  zeros3_like_def assign_channel_def channel_def output_folder_of_def makedirs_of_def
  path_join_def Let_def example_cityscapes_def example_video_def

section \<open>The claims\<close>

text \<open>
  C1. Round trip of the panoptic encoding. For every divisor \<open>d\<close> and every array of
  pairs of a semantic label \<open>s\<close> and an instance id \<open>i\<close> with \<open>0 \<le> i < d\<close>, the
  decoding of \<open>store_raw_predictions\<close> (floor division and remainder by the divisor,
  without the optional eval-id remap) applied to the packed ids \<open>s * d + i\<close> returns
  exactly the semantic labels and the instance ids.
\<close>

theorem panoptic_round_trip:
  assumes "\<forall>row\<in>set pairs. \<forall>(s, i)\<in>set row. 0 \<le> i \<and> i < d"
  shows "predicted_semantic_labels False d (map (map (\<lambda>(s, i). s * d + i)) pairs) =
           Inr (map (map fst) pairs)
       \<and> predicted_instance_labels d (map (map (\<lambda>(s, i). s * d + i)) pairs) =
           map (map snd) pairs"
proof -
  have elt: "np_floordiv (s * d + i) d = s \<and> np_mod (s * d + i) d = i"
    if "0 \<le> i" and "i < d" for s i
  proof -
    from that have "d \<noteq> 0" by simp
    moreover from that have "(s * d + i) div d = s" by simp
    moreover from that have "(s * d + i) mod d = i" by simp
    ultimately show ?thesis by (simp add: np_floordiv_def np_mod_def)
  qed
  have "map (map (\<lambda>p. np_floordiv p d)) (map (map (\<lambda>(s, i). s * d + i)) pairs) =
          map (map fst) pairs"
    using assms elt by (fastforce simp: split_def)
  moreover
  have "map (map (\<lambda>p. np_mod p d)) (map (map (\<lambda>(s, i). s * d + i)) pairs) =
          map (map snd) pairs"
    using assms elt by (fastforce simp: split_def)
  ultimately show ?thesis
    by (simp add: predicted_semantic_labels_def predicted_instance_labels_def)
qed

theorem panoptic_round_trip_witness:
  "list_all (list_all (\<lambda>(s, i). 0 \<le> i \<and> i < (1000::int)))
     [[(11::int, 3), (0, 999)], [(-1, 0), (300, 42)]]
   \<and> predicted_semantic_labels False 1000 [[11003, 999], [-1000, 300042]] =
       Inr [[11, 0], [-1, 300]]
   \<and> predicted_instance_labels 1000 [[11003, 999], [-1000, 300042]] =
       [[3, 999], [0, 42]]"
  using panoptic_round_trip [of "[[(11, 3), (0, 999)], [(-1, 0), (300, 42)]]" 1000]
  by simp

text \<open>
  C9. The lookup table from train ids to eval ids is the twenty listed entries followed
  by zeros, 256 entries in all. So the conversion raises nothing on a prediction whose
  values all lie in \<open>[0, 255]\<close>; it maps a train id below 20 to its listed eval id and
  every train id from 20 to 255 to eval id 0.
\<close>

theorem train_id_table_padded_total:
  "length to_eval_id_map = 256
   \<and> to_eval_id_map = CITYSCAPES_TRAIN_ID_TO_EVAL_ID @ replicate 236 0
   \<and> ((\<forall>row\<in>set prediction. \<forall>t\<in>set row. 0 \<le> t \<and> t \<le> 255) \<longrightarrow>
        convert_cityscapes_train_id_to_eval_id prediction =
          Inr (map (map (\<lambda>t. if t < 20 then CITYSCAPES_TRAIN_ID_TO_EVAL_ID ! nat t else 0))
                 prediction))"
proof (intro conjI impI)
  show "length to_eval_id_map = 256"
    by (rule length_to_eval_id_map)
  show "to_eval_id_map = CITYSCAPES_TRAIN_ID_TO_EVAL_ID @ replicate 236 0"
    by (rule to_eval_id_map_eq)
  assume range: "\<forall>row\<in>set prediction. \<forall>t\<in>set row. 0 \<le> t \<and> t \<le> 255"
  have "np_index_ok to_eval_id_map t" if "row \<in> set prediction" and "t \<in> set row" for row t
  proof -
    from range that have "0 \<le> t \<and> t \<le> 255" by blast
    then show ?thesis by (simp add: np_index_ok_def length_to_eval_id_map)
  qed
  then have ok: "list_all (list_all (np_index_ok to_eval_id_map)) prediction"
    by (simp add: list_all_iff)
  have "map (map (np_item to_eval_id_map)) prediction =
          map (map (\<lambda>t. if t < 20 then CITYSCAPES_TRAIN_ID_TO_EVAL_ID ! nat t else 0))
            prediction"
    using range by (simp add: np_item_to_eval_id_map)
  with ok show "convert_cityscapes_train_id_to_eval_id prediction =
          Inr (map (map (\<lambda>t. if t < 20 then CITYSCAPES_TRAIN_ID_TO_EVAL_ID ! nat t else 0))
                 prediction)"
    by (simp add: convert_cityscapes_train_id_to_eval_id_def np_take_def)
qed

theorem train_id_table_padded_total_witness:
  "list_all (list_all (\<lambda>t. 0 \<le> t \<and> t \<le> (255::int))) [[0, 18], [19, 20], [100, 255]]
   \<and> convert_cityscapes_train_id_to_eval_id [[0, 18], [19, 20], [100, 255]] =
       Inr [[7, 33], [0, 0], [0, 0]]"
  using train_id_table_padded_total [of "[[0, 18], [19, 20], [100, 255]]"]
  by (simp add: CITYSCAPES_TRAIN_ID_TO_EVAL_ID_def)

text \<open>
  C2, as the code has it. With \<open>convert_to_eval\<close> set, which is the default, the
  decoded semantic labels are remapped to eval ids before the format compares them. A
  decoded semantic label 256 is outside the 256 entries of the table: the lookup raises
  \<open>IndexError\<close>, and the overflow \<open>ValueError\<close> is never reached.
\<close>

theorem two_channel_png_semantic_256_index_error:
  "store_raw_predictions
     [TARGET_SEMANTIC_KEY \<mapsto> [[11]], TARGET_PANOPTIC_KEY \<mapsto> [[256000]]]
     ''img'' example_cityscapes ''out'' '''' ''two_channel_png'' True =
     ([Save_annotation (Arr2 [[24]]) ''out/raw_semantic'' ''img'' False], Some IndexError)
   \<and> predicted_semantic_labels False 1000 [[256000]] = Inr [[256]]
   \<and> np_max [[256]] = Inr 256
   \<and> \<not> is_overflow (Some IndexError)"
  by (simp add: model_defs to_eval_id_map_def CITYSCAPES_TRAIN_ID_TO_EVAL_ID_def)

text \<open>
  C2, amended. Format \<open>two_channel_png\<close>, once the call has reached the comparison
  (the dictionary holds the semantic and the panoptic key, and neither the conversion of
  the semantic prediction nor the one of the decoded semantic labels raised): the call
  raises an overflow \<open>ValueError\<close> if and only if the maximum of the semantic labels
  it compares, which are the decoded labels without \<open>convert_to_eval\<close> and their eval
  ids with it, or the maximum of the decoded instance labels is greater than 255; it
  raises nothing if and only if both maxima exist and are at most 255; and when it raises
  nothing, its last call saves an array whose channel 0 is these semantic labels and
  whose channel 1 is the instance labels.
\<close>

theorem two_channel_png_overflow:
  assumes "predictions TARGET_SEMANTIC_KEY = Some sp"
    and "convert_semantic_prediction c di sp = Inr sp'"
    and "predictions TARGET_PANOPTIC_KEY = Some pan"
    and "predicted_semantic_labels c (panoptic_label_divisor di) pan = Inr sem"
    and "predicted_instance_labels (panoptic_label_divisor di) pan = inst"
    and "store_raw_predictions predictions fn di sd seq ''two_channel_png'' c = (fs, res)"
  shows "(res \<in> {Some (ValueError OverflowSemantic), Some (ValueError OverflowInstanceG)} \<longleftrightarrow>
            (\<exists>m. np_max sem = Inr m \<and> 255 < m) \<or> (\<exists>m. np_max inst = Inr m \<and> 255 < m))
       \<and> (res = None \<longleftrightarrow>
            (\<exists>m. np_max sem = Inr m \<and> m \<le> 255) \<and> (\<exists>m. np_max inst = Inr m \<and> m \<le> 255))
       \<and> (res = None \<longrightarrow>
            (\<exists>fs' out. fs = fs' @ [Save_annotation (Arr3 out)
                                     (output_folder_of di sd ''raw_panoptic'' seq) fn False]
               \<and> channel 0 out = sem \<and> channel 1 out = inst))"
proof -
  from assms(4) obtain f where sem: "sem = map (map f) pan"
    by (rule predicted_semantic_labels_maps)
  define g where "g = (\<lambda>p. np_mod p (panoptic_label_divisor di))"
  from assms(5) have inst: "inst = map (map g) pan"
    by (simp add: predicted_instance_labels_maps g_def)
  define folder where "folder = output_folder_of di sd ''raw_panoptic'' seq"
  from assms obtain fs0 where
    run: "encode_panoptic ''two_channel_png'' (map (map f) pan) (map (map g) pan)
            (zeros3_like pan) folder fn fs0 = (fs, res)"
    by (simp add: store_reaches_encode sem inst folder_def)
  show ?thesis
  proof (cases "concat pan = []")
    case True
    then have "encode_panoptic ''two_channel_png'' (map (map f) pan) (map (map g) pan)
            (zeros3_like pan) folder fn fs0 = (fs0, Some (ValueError ZeroSizeReduction))"
      by (rule encode_empty_png) simp
    with run have res: "res = Some (ValueError ZeroSizeReduction)" by simp
    from True have "concat sem = []" and "concat inst = []"
      by (simp_all only: sem inst concat_map_map_Nil)
    then have "\<And>m. np_max sem \<noteq> Inr m" and "\<And>m. np_max inst \<noteq> Inr m"
      by (simp_all only: np_max_Inr_iff simp_thms not_False_eq_True)
    with res show ?thesis by simp
  next
    case False
    obtain ms where ms: "np_max (map (map f) pan) = Inr ms"
      using False by (rule np_max_total)
    obtain mi where mi: "np_max (map (map g) pan) = Inr mi"
      using False by (rule np_max_total)
    note enc = encode_two_channel_png [OF ms mi, of folder fn fs0]
    consider "255 < ms" | "\<not> 255 < ms" "255 < mi" | "\<not> 255 < ms" "\<not> 255 < mi"
      by blast
    then show ?thesis
    proof cases
      case 1
      with enc run have "res = Some (ValueError OverflowSemantic)" by simp
      with 1 ms mi show ?thesis by (simp add: sem inst)
    next
      case 2
      with enc run have "res = Some (ValueError OverflowInstanceG)" by simp
      with 2 ms mi show ?thesis by (simp add: sem inst)
    next
      case 3
      with enc run have res: "res = None"
        and fs: "fs = fs0 @ [Save_annotation (Arr3 (map (map (\<lambda>p. [f p, g p, 0])) pan))
                               folder fn False]"
        by simp_all
      have "channel 0 (map (map (\<lambda>p. [f p, g p, 0])) pan) = sem"
        and "channel 1 (map (map (\<lambda>p. [f p, g p, 0])) pan) = inst"
        by (simp_all add: channel_maps sem inst)
      with fs have "\<exists>fs' out. fs = fs' @ [Save_annotation (Arr3 out) folder fn False]
               \<and> channel 0 out = sem \<and> channel 1 out = inst"
        by blast
      with 3 res ms mi show ?thesis by (simp add: sem inst folder_def)
    qed
  qed
qed

theorem two_channel_png_overflow_witness:
  "store_raw_predictions
     [TARGET_SEMANTIC_KEY \<mapsto> [[11, 0]], TARGET_PANOPTIC_KEY \<mapsto> [[255255, 7]]]
     ''img'' example_cityscapes ''out'' '''' ''two_channel_png'' False =
     ([Save_annotation (Arr2 [[11, 0]]) ''out/raw_semantic'' ''img'' False,
       Save_annotation (Arr3 [[[255, 255, 0], [0, 7, 0]]]) ''out/raw_panoptic'' ''img'' False],
      None)
   \<and> np_max [[255, 0]] = Inr 255 \<and> np_max [[255, 7]] = Inr 255
   \<and> channel 0 [[[255, 255, 0], [0, 7, 0]]] = [[255, 0]]
   \<and> channel 1 [[[255, 255, 0], [0, 7, 0]]] = [[255, 7]]
   \<and> store_raw_predictions
       [TARGET_SEMANTIC_KEY \<mapsto> [[11, 0]], TARGET_PANOPTIC_KEY \<mapsto> [[11003, 7]]]
       ''img'' example_cityscapes ''out'' '''' ''two_channel_png'' True =
       ([Save_annotation (Arr2 [[24, 7]]) ''out/raw_semantic'' ''img'' False,
         Save_annotation (Arr3 [[[24, 3, 0], [7, 7, 0]]]) ''out/raw_panoptic'' ''img'' False],
        None)
   \<and> predicted_semantic_labels True 1000 [[11003, 7]] = Inr [[24, 7]]
   \<and> np_max [[24, 7]] = Inr 24 \<and> np_max [[3, 7]] = Inr 7"
  using two_channel_png_overflow
    [where predictions =
         "[TARGET_SEMANTIC_KEY \<mapsto> [[11, 0]], TARGET_PANOPTIC_KEY \<mapsto> [[255255, 7]]]"
       and sp = "[[11, 0]]" and sp' = "[[11, 0]]" and c = False and di = example_cityscapes
       and pan = "[[255255, 7]]" and sem = "[[255, 0]]" and inst = "[[255, 7]]"
       and fn = "''img''" and sd = "''out''" and seq = "''''"
       and fs = "[Save_annotation (Arr2 [[11, 0]]) ''out/raw_semantic'' ''img'' False,
                  Save_annotation (Arr3 [[[255, 255, 0], [0, 7, 0]]]) ''out/raw_panoptic''
                    ''img'' False]"
       and res = None]
    two_channel_png_overflow
    [where predictions =
         "[TARGET_SEMANTIC_KEY \<mapsto> [[11, 0]], TARGET_PANOPTIC_KEY \<mapsto> [[11003, 7]]]"
       and sp = "[[11, 0]]" and sp' = "[[24, 7]]" and c = True and di = example_cityscapes
       and pan = "[[11003, 7]]" and sem = "[[24, 7]]" and inst = "[[3, 7]]"
       and fn = "''img''" and sd = "''out''" and seq = "''''"
       and fs = "[Save_annotation (Arr2 [[24, 7]]) ''out/raw_semantic'' ''img'' False,
                  Save_annotation (Arr3 [[[24, 3, 0], [7, 7, 0]]]) ''out/raw_panoptic''
                    ''img'' False]"
       and res = None]
  by (simp add: model_defs to_eval_id_map_def CITYSCAPES_TRAIN_ID_TO_EVAL_ID_def)

text \<open>The boundary of the format without \<open>convert_to_eval\<close>: a semantic label 256
  and an instance id 256 raise the overflow error.\<close>

lemma two_channel_png_semantic_256:
  "store_raw_predictions
     [TARGET_SEMANTIC_KEY \<mapsto> [[11]], TARGET_PANOPTIC_KEY \<mapsto> [[256000]]]
     ''img'' example_cityscapes ''out'' '''' ''two_channel_png'' False =
     ([Save_annotation (Arr2 [[11]]) ''out/raw_semantic'' ''img'' False],
      Some (ValueError OverflowSemantic))"
  by (simp add: model_defs)

lemma two_channel_png_instance_256:
  "store_raw_predictions
     [TARGET_SEMANTIC_KEY \<mapsto> [[11]], TARGET_PANOPTIC_KEY \<mapsto> [[11256]]]
     ''img'' example_cityscapes ''out'' '''' ''two_channel_png'' False =
     ([Save_annotation (Arr2 [[11]]) ''out/raw_semantic'' ''img'' False],
      Some (ValueError OverflowInstanceG))"
  by (simp add: model_defs)

text \<open>
  C3, as the code has it. With \<open>convert_to_eval\<close> set, which is the default, a decoded
  semantic label 256 is outside the table of eval ids: the lookup raises \<open>IndexError\<close>
  before the format compares anything, and the overflow \<open>ValueError\<close> is never
  reached.
\<close>

theorem three_channel_png_semantic_256_index_error:
  "store_raw_predictions
     [TARGET_SEMANTIC_KEY \<mapsto> [[11]], TARGET_PANOPTIC_KEY \<mapsto> [[256000]]]
     ''img'' example_cityscapes ''out'' '''' ''three_channel_png'' True =
     ([Save_annotation (Arr2 [[24]]) ''out/raw_semantic'' ''img'' False], Some IndexError)
   \<and> predicted_semantic_labels False 1000 [[256000]] = Inr [[256]]
   \<and> np_max [[256]] = Inr 256
   \<and> \<not> is_overflow (Some IndexError)"
  by (simp add: model_defs to_eval_id_map_def CITYSCAPES_TRAIN_ID_TO_EVAL_ID_def)

text \<open>
  C3, amended. Format \<open>three_channel_png\<close>, once the call has reached the comparison
  (the dictionary holds the semantic and the panoptic key, and neither the conversion of
  the semantic prediction nor the one of the decoded semantic labels raised): the call
  raises an overflow \<open>ValueError\<close> if and only if the maximum of the semantic labels
  it compares, which are the decoded labels without \<open>convert_to_eval\<close> and their eval
  ids with it, is greater than 255 or the maximum of the decoded instance labels is
  greater than 65535; it raises nothing if and only if both maxima exist and are within
  these bounds; and when it raises nothing, its last call saves an array whose channel 0
  is these semantic labels, whose channel 1 is the instance labels divided by 256 (floor)
  and whose channel 2 is the instance labels modulo 256, at every pixel.
\<close>

theorem three_channel_png_overflow:
  assumes "predictions TARGET_SEMANTIC_KEY = Some sp"
    and "convert_semantic_prediction c di sp = Inr sp'"
    and "predictions TARGET_PANOPTIC_KEY = Some pan"
    and "predicted_semantic_labels c (panoptic_label_divisor di) pan = Inr sem"
    and "predicted_instance_labels (panoptic_label_divisor di) pan = inst"
    and "store_raw_predictions predictions fn di sd seq ''three_channel_png'' c = (fs, res)"
  shows "(res \<in> {Some (ValueError OverflowSemantic), Some (ValueError OverflowInstanceGB)} \<longleftrightarrow>
            (\<exists>m. np_max sem = Inr m \<and> 255 < m) \<or> (\<exists>m. np_max inst = Inr m \<and> 65535 < m))
       \<and> (res = None \<longleftrightarrow>
            (\<exists>m. np_max sem = Inr m \<and> m \<le> 255) \<and> (\<exists>m. np_max inst = Inr m \<and> m \<le> 65535))
       \<and> (res = None \<longrightarrow>
            (\<exists>fs' out. fs = fs' @ [Save_annotation (Arr3 out)
                                     (output_folder_of di sd ''raw_panoptic'' seq) fn False]
               \<and> channel 0 out = sem
               \<and> channel 1 out = map (map (\<lambda>i. i div 256)) inst
               \<and> channel 2 out = map (map (\<lambda>i. i mod 256)) inst))"
proof -
  from assms(4) obtain f where sem: "sem = map (map f) pan"
    by (rule predicted_semantic_labels_maps)
  define g where "g = (\<lambda>p. np_mod p (panoptic_label_divisor di))"
  from assms(5) have inst: "inst = map (map g) pan"
    by (simp add: predicted_instance_labels_maps g_def)
  define folder where "folder = output_folder_of di sd ''raw_panoptic'' seq"
  from assms obtain fs0 where
    run: "encode_panoptic ''three_channel_png'' (map (map f) pan) (map (map g) pan)
            (zeros3_like pan) folder fn fs0 = (fs, res)"
    by (simp add: store_reaches_encode sem inst folder_def)
  show ?thesis
  proof (cases "concat pan = []")
    case True
    then have "encode_panoptic ''three_channel_png'' (map (map f) pan) (map (map g) pan)
            (zeros3_like pan) folder fn fs0 = (fs0, Some (ValueError ZeroSizeReduction))"
      by (rule encode_empty_png) simp
    with run have res: "res = Some (ValueError ZeroSizeReduction)" by simp
    from True have "concat sem = []" and "concat inst = []"
      by (simp_all only: sem inst concat_map_map_Nil)
    then have "\<And>m. np_max sem \<noteq> Inr m" and "\<And>m. np_max inst \<noteq> Inr m"
      by (simp_all only: np_max_Inr_iff simp_thms not_False_eq_True)
    with res show ?thesis by simp
  next
    case False
    obtain ms where ms: "np_max (map (map f) pan) = Inr ms"
      using False by (rule np_max_total)
    obtain mi where mi: "np_max (map (map g) pan) = Inr mi"
      using False by (rule np_max_total)
    note enc = encode_three_channel_png [OF ms mi, of folder fn fs0]
    consider "255 < ms" | "\<not> 255 < ms" "65535 < mi" | "\<not> 255 < ms" "\<not> 65535 < mi"
      by blast
    then show ?thesis
    proof cases
      case 1
      with enc run have "res = Some (ValueError OverflowSemantic)" by simp
      with 1 ms mi show ?thesis by (simp add: sem inst)
    next
      case 2
      with enc run have "res = Some (ValueError OverflowInstanceGB)" by simp
      with 2 ms mi show ?thesis by (simp add: sem inst)
    next
      case 3
      define out where "out = map (map (\<lambda>p. [f p, g p div 256, g p mod 256])) pan"
      from 3 enc run have res: "res = None"
        and fs: "fs = fs0 @ [Save_annotation (Arr3 out) folder fn False]"
        by (simp_all add: out_def)
      have "channel 0 out = sem"
        and "channel 1 out = map (map (\<lambda>i. i div 256)) inst"
        and "channel 2 out = map (map (\<lambda>i. i mod 256)) inst"
        by (simp_all add: out_def channel_maps sem inst comp_def)
      with fs have "\<exists>fs' out. fs = fs' @ [Save_annotation (Arr3 out) folder fn False]
               \<and> channel 0 out = sem
               \<and> channel 1 out = map (map (\<lambda>i. i div 256)) inst
               \<and> channel 2 out = map (map (\<lambda>i. i mod 256)) inst"
        by blast
      with 3 res ms mi show ?thesis by (simp add: sem inst folder_def)
    qed
  qed
qed

theorem three_channel_png_overflow_witness:
  "store_raw_predictions
     [TARGET_SEMANTIC_KEY \<mapsto> [[11, 0]], TARGET_PANOPTIC_KEY \<mapsto> [[25565535, 258]]]
     ''img'' example_video ''out'' ''0001'' ''three_channel_png'' False =
     ([Makedirs ''out/raw_semantic/0001'',
       Save_annotation (Arr2 [[11, 0]]) ''out/raw_semantic/0001'' ''img'' False,
       Makedirs ''out/raw_panoptic/0001'',
       Save_annotation (Arr3 [[[255, 255, 255], [0, 1, 2]]]) ''out/raw_panoptic/0001''
         ''img'' False],
      None)
   \<and> np_max [[255, 0]] = Inr 255 \<and> np_max [[65535, 258]] = Inr 65535
   \<and> channel 0 [[[255, 255, 255], [0, 1, 2]]] = [[255, 0]]
   \<and> channel 1 [[[255, 255, 255], [0, 1, 2]]] = [[65535 div 256, 258 div 256]]
   \<and> channel 2 [[[255, 255, 255], [0, 1, 2]]] = [[65535 mod 256, 258 mod 256]]
   \<and> store_raw_predictions
       [TARGET_SEMANTIC_KEY \<mapsto> [[11, 0]], TARGET_PANOPTIC_KEY \<mapsto> [[11003, 7]]]
       ''img'' example_cityscapes ''out'' '''' ''three_channel_png'' True =
       ([Save_annotation (Arr2 [[24, 7]]) ''out/raw_semantic'' ''img'' False,
         Save_annotation (Arr3 [[[24, 0, 3], [7, 0, 7]]]) ''out/raw_panoptic'' ''img'' False],
        None)
   \<and> predicted_semantic_labels True 1000 [[11003, 7]] = Inr [[24, 7]]
   \<and> np_max [[24, 7]] = Inr 24 \<and> np_max [[3, 7]] = Inr 7"
  using three_channel_png_overflow
    [where predictions =
         "[TARGET_SEMANTIC_KEY \<mapsto> [[11, 0]], TARGET_PANOPTIC_KEY \<mapsto> [[25565535, 258]]]"
       and sp = "[[11, 0]]" and sp' = "[[11, 0]]" and c = False and di = example_video
       and pan = "[[25565535, 258]]" and sem = "[[255, 0]]" and inst = "[[65535, 258]]"
       and fn = "''img''" and sd = "''out''" and seq = "''0001''"
       and fs = "[Makedirs ''out/raw_semantic/0001'',
                  Save_annotation (Arr2 [[11, 0]]) ''out/raw_semantic/0001'' ''img'' False,
                  Makedirs ''out/raw_panoptic/0001'',
                  Save_annotation (Arr3 [[[255, 255, 255], [0, 1, 2]]])
                    ''out/raw_panoptic/0001'' ''img'' False]"
       and res = None]
    three_channel_png_overflow
    [where predictions =
         "[TARGET_SEMANTIC_KEY \<mapsto> [[11, 0]], TARGET_PANOPTIC_KEY \<mapsto> [[11003, 7]]]"
       and sp = "[[11, 0]]" and sp' = "[[24, 7]]" and c = True and di = example_cityscapes
       and pan = "[[11003, 7]]" and sem = "[[24, 7]]" and inst = "[[3, 7]]"
       and fn = "''img''" and sd = "''out''" and seq = "''''"
       and fs = "[Save_annotation (Arr2 [[24, 7]]) ''out/raw_semantic'' ''img'' False,
                  Save_annotation (Arr3 [[[24, 0, 3], [7, 0, 7]]]) ''out/raw_panoptic''
                    ''img'' False]"
       and res = None]
  by (simp add: model_defs to_eval_id_map_def CITYSCAPES_TRAIN_ID_TO_EVAL_ID_def)

text \<open>The boundary of the format: an instance id 65536 raises.\<close>

lemma three_channel_png_instance_65536:
  "store_raw_predictions
     [TARGET_SEMANTIC_KEY \<mapsto> [[11]], TARGET_PANOPTIC_KEY \<mapsto> [[1165536]]]
     ''img'' example_video ''out'' ''0001'' ''three_channel_png'' False =
     ([Makedirs ''out/raw_semantic/0001'',
       Save_annotation (Arr2 [[11]]) ''out/raw_semantic/0001'' ''img'' False,
       Makedirs ''out/raw_panoptic/0001''],
      Some (ValueError OverflowInstanceGB))"
  by (simp add: model_defs)

text \<open>
  C4, as the code has it. The format is looked at only inside the guard on the panoptic
  key: a call whose dictionary has no panoptic prediction returns normally whatever the
  format string is.
\<close>

theorem unknown_format_without_panoptic_key:
  "''four_channel_png'' \<noteq> ''two_channel_png''
   \<and> ''four_channel_png'' \<noteq> ''three_channel_png''
   \<and> ''four_channel_png'' \<noteq> ''two_channel_numpy_array''
   \<and> store_raw_predictions [TARGET_SEMANTIC_KEY \<mapsto> [[11, 0]]]
       ''img'' example_cityscapes ''out'' '''' ''four_channel_png'' False =
       ([Save_annotation (Arr2 [[11, 0]]) ''out/raw_semantic'' ''img'' False], None)"
  by (simp add: model_defs)

text \<open>
  C4, amended. Once the call has decoded the panoptic prediction (the dictionary holds
  the semantic and the panoptic key, and neither the conversion of the semantic
  prediction nor the decoding raised), every format string other than
  \<open>two_channel_png\<close>, \<open>three_channel_png\<close> and \<open>two_channel_numpy_array\<close> makes
  the call raise the unknown-format \<open>ValueError\<close>, after the raw semantic prediction
  has been saved.
\<close>

theorem unknown_format_raises:
  assumes "predictions TARGET_SEMANTIC_KEY = Some sp"
    and "convert_semantic_prediction c di sp = Inr sp'"
    and "predictions TARGET_PANOPTIC_KEY = Some pan"
    and "predicted_semantic_labels c (panoptic_label_divisor di) pan = Inr sem"
    and "fmt \<noteq> ''two_channel_png''"
    and "fmt \<noteq> ''three_channel_png''"
    and "fmt \<noteq> ''two_channel_numpy_array''"
  shows "store_raw_predictions predictions fn di sd seq fmt c =
           (makedirs_of di (output_folder_of di sd ''raw_semantic'' seq) @
            [Save_annotation (Arr2 sp') (output_folder_of di sd ''raw_semantic'' seq) fn False] @
            makedirs_of di (output_folder_of di sd ''raw_panoptic'' seq),
            Some (ValueError (UnknownFormat fmt)))"
  using assms by (simp add: store_reaches_encode encode_unknown_format)

theorem unknown_format_raises_witness:
  "store_raw_predictions
     [TARGET_SEMANTIC_KEY \<mapsto> [[11, 0]], TARGET_PANOPTIC_KEY \<mapsto> [[11003, 7]]]
     ''img'' example_cityscapes ''out'' '''' ''four_channel_png'' True =
     ([Save_annotation (Arr2 [[24, 7]]) ''out/raw_semantic'' ''img'' False],
      Some (ValueError (UnknownFormat ''four_channel_png'')))"
  using unknown_format_raises
    [where predictions =
         "[TARGET_SEMANTIC_KEY \<mapsto> [[11, 0]], TARGET_PANOPTIC_KEY \<mapsto> [[11003, 7]]]"
       and sp = "[[11, 0]]" and sp' = "[[24, 7]]" and c = True and di = example_cityscapes
       and pan = "[[11003, 7]]" and sem = "[[24, 7]]" and fmt = "''four_channel_png''"
       and fn = "''img''" and sd = "''out''" and seq = "''''"]
  by (simp add: model_defs to_eval_id_map_def CITYSCAPES_TRAIN_ID_TO_EVAL_ID_def)



text \<open>
  C10. An overflow error or an unknown-format error is raised only by a call whose
  dictionary holds the panoptic key, and by then the raw semantic prediction has been
  passed to \<open>save_annotation\<close>, so the artifact is written although the call fails.
  Without the panoptic key the format is never looked at: the call does the same for
  every format string and raises neither of these errors.
\<close>

theorem format_errors_need_panoptic_key:
  assumes "store_raw_predictions predictions fn di sd seq fmt c = (fs, res)"
  shows "(is_overflow res \<or> is_unknown_format res \<longrightarrow>
            predictions TARGET_PANOPTIC_KEY \<noteq> None
            \<and> (\<exists>sp sp'. predictions TARGET_SEMANTIC_KEY = Some sp
                  \<and> convert_semantic_prediction c di sp = Inr sp'
                  \<and> Save_annotation (Arr2 sp') (output_folder_of di sd ''raw_semantic'' seq)
                        fn False \<in> set fs))
       \<and> (predictions TARGET_PANOPTIC_KEY = None \<longrightarrow>
            \<not> is_overflow res \<and> \<not> is_unknown_format res
            \<and> store_raw_predictions predictions fn di sd seq fmt' c = (fs, res))"
proof (cases predictions fn di sd seq fmt c rule: store_raw_predictions_cases)
  case no_semantic
  with assms have "res = Some (KeyError TARGET_SEMANTIC_KEY)" by simp
  moreover have "predictions TARGET_PANOPTIC_KEY = None \<longrightarrow>
      store_raw_predictions predictions fn di sd seq fmt' c = (fs, res)"
    using assms store_without_panoptic_key [of predictions fn di sd seq fmt c fmt'] by simp
  ultimately show ?thesis by simp
next
  case (convert_fails sp e)
  from convert_semantic_prediction_error [OF convert_fails(2)]
  have "\<not> is_overflow (Some e)" and "\<not> is_unknown_format (Some e)" by auto
  moreover from assms convert_fails(3) have "res = Some e" by simp
  moreover have "predictions TARGET_PANOPTIC_KEY = None \<longrightarrow>
      store_raw_predictions predictions fn di sd seq fmt' c = (fs, res)"
    using assms store_without_panoptic_key [of predictions fn di sd seq fmt c fmt'] by simp
  ultimately show ?thesis by simp
next
  case (no_panoptic sp sp')
  with assms have "res = None" by simp
  moreover have "predictions TARGET_PANOPTIC_KEY = None \<longrightarrow>
      store_raw_predictions predictions fn di sd seq fmt' c = (fs, res)"
    using assms store_without_panoptic_key [of predictions fn di sd seq fmt c fmt'] by simp
  ultimately show ?thesis by simp
next
  case (decode_fails sp sp' pan e)
  from predicted_semantic_labels_error [OF decode_fails(4)] assms decode_fails(5)
  have "res = Some IndexError" by simp
  with decode_fails(3) show ?thesis by simp
next
  case (encode sp sp' pan sem)
  let ?saved = "Save_annotation (Arr2 sp') (output_folder_of di sd ''raw_semantic'' seq) fn False"
  let ?fs2 = "makedirs_of di (output_folder_of di sd ''raw_semantic'' seq) @ [?saved] @
              makedirs_of di (output_folder_of di sd ''raw_panoptic'' seq)"
  let ?enc = "encode_panoptic fmt sem
                (predicted_instance_labels (panoptic_label_divisor di) pan) (zeros3_like pan)
                (output_folder_of di sd ''raw_panoptic'' seq) fn ?fs2"
  from encode(5) assms have "fst ?enc = fs" by (metis fst_conv)
  moreover obtain rest where "fst ?enc = ?fs2 @ rest"
    using encode_panoptic_keeps_calls by blast
  ultimately have "fs = ?fs2 @ rest" by simp
  then have "?saved \<in> set fs" by simp
  with encode(1,2,3) show ?thesis by auto
qed

theorem format_errors_need_panoptic_key_witness:
  "store_raw_predictions
     [TARGET_SEMANTIC_KEY \<mapsto> [[11]], TARGET_PANOPTIC_KEY \<mapsto> [[256000]]]
     ''img'' example_cityscapes ''out'' '''' ''two_channel_png'' False =
     ([Save_annotation (Arr2 [[11]]) ''out/raw_semantic'' ''img'' False],
      Some (ValueError OverflowSemantic))
   \<and> is_overflow (Some (ValueError OverflowSemantic))
   \<and> [TARGET_SEMANTIC_KEY \<mapsto> [[11]], TARGET_PANOPTIC_KEY \<mapsto> [[256000::int]]]
        TARGET_PANOPTIC_KEY \<noteq> None
   \<and> Save_annotation (Arr2 [[11]]) ''out/raw_semantic'' ''img'' False
        \<in> set [Save_annotation (Arr2 [[11]]) ''out/raw_semantic'' ''img'' False]
   \<and> [TARGET_SEMANTIC_KEY \<mapsto> [[11::int]]] TARGET_PANOPTIC_KEY = None
   \<and> store_raw_predictions [TARGET_SEMANTIC_KEY \<mapsto> [[11]]]
       ''img'' example_cityscapes ''out'' '''' ''four_channel_png'' False =
       ([Save_annotation (Arr2 [[11]]) ''out/raw_semantic'' ''img'' False], None)"
  using format_errors_need_panoptic_key
    [where predictions =
         "[TARGET_SEMANTIC_KEY \<mapsto> [[11]], TARGET_PANOPTIC_KEY \<mapsto> [[256000]]]"
       and c = False and di = example_cityscapes and fmt = "''two_channel_png''"
       and fn = "''img''" and sd = "''out''" and seq = "''''"
       and fs = "[Save_annotation (Arr2 [[11]]) ''out/raw_semantic'' ''img'' False]"
       and res = "Some (ValueError OverflowSemantic)"]
    format_errors_need_panoptic_key
    [where predictions = "[TARGET_SEMANTIC_KEY \<mapsto> [[11]]]"
       and c = False and di = example_cityscapes and fmt = "''two_channel_png''"
       and fmt' = "''four_channel_png''"
       and fn = "''img''" and sd = "''out''" and seq = "''''"
       and fs = "[Save_annotation (Arr2 [[11]]) ''out/raw_semantic'' ''img'' False]"
       and res = None]
  by (simp add: model_defs)

text \<open>
  C5. With \<open>convert_to_eval\<close> set and a semantic prediction in the dictionary: for
  every dataset descriptor whose name does not contain \<open>cityscapes\<close> the call raises
  the unsupported-dataset \<open>ValueError\<close> before it writes anything; for a descriptor
  whose name contains it, and class ids within the table (0 to 255), the call saves as
  raw semantic prediction the array in which every class id is replaced by the entry of
  the lookup table at that index.
\<close>

theorem eval_id_conversion:
  assumes "predictions TARGET_SEMANTIC_KEY = Some sp"
  shows "(\<not> str_in ''cityscapes'' (dataset_name di) \<longrightarrow>
            store_raw_predictions predictions fn di sd seq fmt True =
              ([], Some (ValueError (UnsupportedDataset (dataset_name di)))))
       \<and> (str_in ''cityscapes'' (dataset_name di)
            \<and> (\<forall>row\<in>set sp. \<forall>t\<in>set row. 0 \<le> t \<and> t \<le> 255) \<longrightarrow>
            (\<exists>rest res. store_raw_predictions predictions fn di sd seq fmt True =
               (makedirs_of di (output_folder_of di sd ''raw_semantic'' seq) @
                [Save_annotation (Arr2 (map (map (\<lambda>t. to_eval_id_map ! nat t)) sp))
                   (output_folder_of di sd ''raw_semantic'' seq) fn False] @ rest,
                res)))"
proof (intro conjI impI)
  assume "\<not> str_in ''cityscapes'' (dataset_name di)"
  with assms show "store_raw_predictions predictions fn di sd seq fmt True =
      ([], Some (ValueError (UnsupportedDataset (dataset_name di))))"
    by (simp add: store_raw_predictions_def convert_semantic_prediction_def)
next
  let ?folder = "output_folder_of di sd ''raw_semantic'' seq"
  let ?converted = "map (map (\<lambda>t. to_eval_id_map ! nat t)) sp"
  let ?fs1 = "makedirs_of di ?folder @ [Save_annotation (Arr2 ?converted) ?folder fn False]"
  assume "str_in ''cityscapes'' (dataset_name di)
            \<and> (\<forall>row\<in>set sp. \<forall>t\<in>set row. 0 \<le> t \<and> t \<le> 255)"
  then have name: "str_in ''cityscapes'' (dataset_name di)"
    and range: "\<forall>row\<in>set sp. \<forall>t\<in>set row. 0 \<le> t \<and> t < int (length to_eval_id_map)"
    by (simp_all add: length_to_eval_id_map) force
  from range have "np_take to_eval_id_map sp = Inr ?converted"
    by (rule np_take_in_range)
  with name have conv: "convert_semantic_prediction True di sp = Inr ?converted"
    by (simp add: convert_semantic_prediction_def convert_cityscapes_train_id_to_eval_id_def)
  have "\<exists>rest. fst (store_raw_predictions predictions fn di sd seq fmt True) = ?fs1 @ rest"
  proof (cases predictions fn di sd seq fmt True rule: store_raw_predictions_cases)
    case no_semantic
    with assms show ?thesis by simp
  next
    case (convert_fails sp0 e)
    with assms conv show ?thesis by simp
  next
    case (no_panoptic sp0 sp')
    with assms conv show ?thesis by simp
  next
    case (decode_fails sp0 sp' pan e)
    with assms conv show ?thesis by simp
  next
    case (encode sp0 sp' pan sem)
    with assms conv have sp': "sp' = ?converted" by simp
    from encode_panoptic_keeps_calls
      [of fmt sem "predicted_instance_labels (panoptic_label_divisor di) pan" "zeros3_like pan"
          "output_folder_of di sd ''raw_panoptic'' seq" fn
          "?fs1 @ makedirs_of di (output_folder_of di sd ''raw_panoptic'' seq)"]
    show ?thesis by (auto simp: encode(5) sp')
  qed
  then obtain rest where
    "fst (store_raw_predictions predictions fn di sd seq fmt True) = ?fs1 @ rest" ..
  then have "store_raw_predictions predictions fn di sd seq fmt True =
      (makedirs_of di ?folder @ [Save_annotation (Arr2 ?converted) ?folder fn False] @ rest,
       snd (store_raw_predictions predictions fn di sd seq fmt True))"
    by (simp add: prod_eq_iff)
  then show "\<exists>rest res. store_raw_predictions predictions fn di sd seq fmt True =
      (makedirs_of di ?folder @ [Save_annotation (Arr2 ?converted) ?folder fn False] @ rest,
       res)"
    by blast
qed

theorem eval_id_conversion_witness:
  "store_raw_predictions [TARGET_SEMANTIC_KEY \<mapsto> [[0, 18], [19, 200]]]
     ''img'' example_video ''out'' ''0001'' ''two_channel_png'' True =
     ([], Some (ValueError (UnsupportedDataset ''kitti_step'')))
   \<and> str_in ''cityscapes'' ''cityscapes_panoptic''
   \<and> list_all (list_all (\<lambda>t. 0 \<le> t \<and> t \<le> (255::int))) [[0, 18], [19, 200]]
   \<and> store_raw_predictions [TARGET_SEMANTIC_KEY \<mapsto> [[0, 18], [19, 200]]]
       ''img'' example_cityscapes ''out'' '''' ''two_channel_png'' True =
       ([Save_annotation (Arr2 [[7, 33], [0, 0]]) ''out/raw_semantic'' ''img'' False], None)"
  using eval_id_conversion
    [where predictions = "[TARGET_SEMANTIC_KEY \<mapsto> [[0, 18], [19, 200]]]"
       and sp = "[[0, 18], [19, 200]]" and di = example_video
       and fn = "''img''" and sd = "''out''" and seq = "''0001''"
       and fmt = "''two_channel_png''"]
    eval_id_conversion
    [where predictions = "[TARGET_SEMANTIC_KEY \<mapsto> [[0, 18], [19, 200]]]"
       and sp = "[[0, 18], [19, 200]]" and di = example_cityscapes
       and fn = "''img''" and sd = "''out''" and seq = "''''"
       and fmt = "''two_channel_png''"]
  by (simp add: model_defs to_eval_id_map_def CITYSCAPES_TRAIN_ID_TO_EVAL_ID_def)

text \<open>
  C7. For every label map and every list of thing classes, the mask of
  \<open>_get_fg_mask\<close> holds 1 at exactly the pixels whose class id is in the list and 0 at
  every other pixel; and the product of a flow-colour image of the same height and width
  with this mask keeps the pixels of thing classes as they are and sets every channel of
  every other pixel to 0.
\<close>

theorem fg_mask_correct:
  "get_fg_mask label_map thing_list =
     map (map (\<lambda>c. [if c \<in> set thing_list then 1 else 0])) label_map
   \<and> (map length rgb = map length label_map \<longrightarrow>
        masked_offset_rgb rgb label_map thing_list =
          Inr (map2 (map2 (\<lambda>px c. if c \<in> set thing_list then px else map (\<lambda>_. 0) px))
                 rgb label_map))"
proof (intro conjI impI)
  show "get_fg_mask label_map thing_list =
     map (map (\<lambda>c. [if c \<in> set thing_list then 1 else 0])) label_map"
    by (rule get_fg_mask_eq)
next
  assume shape: "map length rgb = map length label_map"
  define zss where "zss = map2 zip rgb label_map"
  define m where "m = (\<lambda>c. if c \<in> set thing_list then 1 else (0::int))"
  have rgb: "rgb = map (map fst) zss" and lab: "label_map = map (map snd) zss"
    unfolding zss_def by (rule unzip_rows [OF shape])+
  have "get_fg_mask label_map thing_list = map (map (\<lambda>z. [m (snd z)])) zss"
    by (subst lab) (simp add: get_fg_mask_eq m_def comp_def)
  then have "masked_offset_rgb rgb label_map thing_list =
      elementwise3 (*) (map (map fst) zss) (map (map (\<lambda>z. [m (snd z)])) zss)"
    using rgb by (simp add: masked_offset_rgb_def)
  also have "\<dots> = Inr (map (map (\<lambda>z. map (\<lambda>x. x * m (snd z)) (fst z))) zss)"
    unfolding elementwise3_def
    by (rule broadcast_axis_maps) (rule broadcast_axis_maps, rule scale_pixel)
  also have "map (map (\<lambda>z. map (\<lambda>x. x * m (snd z)) (fst z))) zss =
      map (map (\<lambda>(px, c). if c \<in> set thing_list then px else map (\<lambda>_. 0) px)) zss"
    by (simp add: m_def split_def)
  also have "\<dots> = map2 (map2 (\<lambda>px c. if c \<in> set thing_list then px else map (\<lambda>_. 0) px))
                      rgb label_map"
    unfolding zss_def by (rule map2_as_rows [symmetric])
  finally show "masked_offset_rgb rgb label_map thing_list =
      Inr (map2 (map2 (\<lambda>px c. if c \<in> set thing_list then px else map (\<lambda>_. 0) px))
             rgb label_map)" .
qed

theorem fg_mask_correct_witness:
  "get_fg_mask [[0, 11], [13, 12]] [11, 13] = [[[0], [1]], [[1], [0]]]
   \<and> map length [[[1, 2, 3], [4, 5, 6]], [[7, 8, 9], [10, 11, 12::int]]] =
       map length [[0, 11], [13, 12::int]]
   \<and> masked_offset_rgb [[[1, 2, 3], [4, 5, 6]], [[7, 8, 9], [10, 11, 12]]]
       [[0, 11], [13, 12]] [11, 13] =
       Inr [[[0, 0, 0], [4, 5, 6]], [[7, 8, 9], [0, 0, 0]]]"
  using fg_mask_correct
    [of "[[0, 11], [13, 12]]" "[11, 13]" "[[[1, 2, 3], [4, 5, 6]], [[7, 8, 9], [10, 11, 12]]]"]
  by simp

text \<open>
  C8, as the code has it. The label is cast to \<open>uint8\<close> before it is compared: a ground
  truth label 256 becomes 0, so a prediction 0 counts as correct although it differs from
  the label and the label is not the ignore label 255.
\<close>

theorem error_mask_label_256:
  "error_prediction [[0]] [[256]] 255 = Inr [[0]]
   \<and> (0::int) \<noteq> 256 \<and> (256::int) \<noteq> 255"
  by (simp add: error_prediction_def elementwise2_def broadcast_axis_def astype_uint8_def)

text \<open>
  C8, amended. For a semantic prediction and a ground truth label of the same height and
  width, the error artifact is 255 at exactly the pixels where the prediction differs
  from the label reduced modulo 256 (the \<open>uint8\<close> cast) and that reduced label is not
  the ignore label, and 0 at every other pixel. In particular, for labels between 0 and
  255 it is 255 exactly where the prediction differs from the label and the label is not
  the ignore label, and 0 elsewhere.
\<close>

theorem error_mask_correct:
  assumes "map length semantic_prediction = map length gt"
  shows "error_prediction semantic_prediction gt ignore =
           Inr (map2 (map2 (\<lambda>p l. if p \<noteq> l mod 256 \<and> l mod 256 \<noteq> ignore then 255 else 0))
                  semantic_prediction gt)
       \<and> ((\<forall>row\<in>set gt. \<forall>l\<in>set row. 0 \<le> l \<and> l \<le> 255) \<longrightarrow>
            error_prediction semantic_prediction gt ignore =
              Inr (map2 (map2 (\<lambda>p l. if p \<noteq> l \<and> l \<noteq> ignore then 255 else 0))
                     semantic_prediction gt))"
proof -
  define zss where "zss = map2 zip semantic_prediction gt"
  have pred: "semantic_prediction = map (map fst) zss"
    and gt: "gt = map (map snd) zss"
    unfolding zss_def by (rule unzip_rows [OF assms])+
  define label where "label = (\<lambda>z::int \<times> int. astype_uint8 (snd z))"
  have differs: "elementwise2 (\<noteq>) (map (map fst) zss) (map (map label) zss) =
      Inr (map (map (\<lambda>z. fst z \<noteq> label z)) zss)"
    by (rule elementwise2_maps)
  have both: "elementwise2 (\<and>) (map (map (\<lambda>z. fst z \<noteq> label z)) zss)
        (map (map (\<lambda>z. label z \<noteq> ignore)) zss) =
      Inr (map (map (\<lambda>z. fst z \<noteq> label z \<and> label z \<noteq> ignore)) zss)"
    by (rule elementwise2_maps)
  have "error_prediction (map (map fst) zss) (map (map snd) zss) ignore =
      Inr (map (map (\<lambda>z. astype_uint8
             ((if fst z \<noteq> label z \<and> label z \<noteq> ignore then 1 else 0) * 255))) zss)"
    using differs both by (simp add: error_prediction_def comp_def label_def)
  also have "map (map (\<lambda>z. astype_uint8
             ((if fst z \<noteq> label z \<and> label z \<noteq> ignore then 1 else 0) * 255))) zss =
      map (map (\<lambda>(p, l). if p \<noteq> l mod 256 \<and> l mod 256 \<noteq> ignore then 255 else 0)) zss"
    by (simp add: label_def astype_uint8_def split_def)
  also have "\<dots> = map2 (map2 (\<lambda>p l. if p \<noteq> l mod 256 \<and> l mod 256 \<noteq> ignore then 255 else 0))
                      semantic_prediction gt"
    unfolding zss_def by (rule map2_as_rows [symmetric])
  finally have general: "error_prediction semantic_prediction gt ignore =
      Inr (map2 (map2 (\<lambda>p l. if p \<noteq> l mod 256 \<and> l mod 256 \<noteq> ignore then 255 else 0))
             semantic_prediction gt)"
    by (simp only: pred [symmetric] gt [symmetric])
  have "map2 (map2 (\<lambda>p l. if p \<noteq> l mod 256 \<and> l mod 256 \<noteq> ignore then 255 else (0::int)))
          semantic_prediction gt =
        map2 (map2 (\<lambda>p l. if p \<noteq> l \<and> l \<noteq> ignore then 255 else 0)) semantic_prediction gt"
    if range: "\<forall>row\<in>set gt. \<forall>l\<in>set row. 0 \<le> l \<and> l \<le> 255"
  proof -
    have "l mod 256 = l" if "(r, row) \<in> set (zip semantic_prediction gt)"
      and "(p, l) \<in> set (zip r row)" for r row p l
    proof -
      from that have "row \<in> set gt" and "l \<in> set row"
        by (auto dest: set_zip_rightD)
      with range have "0 \<le> l \<and> l \<le> 255" by blast
      then show ?thesis by simp
    qed
    then show ?thesis by (auto simp: split_def)
  qed
  with general show ?thesis by simp
qed

theorem error_mask_correct_witness:
  "map length [[0, 1], [2, 3::int]] = map length [[0, 2], [255, 3::int]]
   \<and> list_all (list_all (\<lambda>l. 0 \<le> l \<and> l \<le> (255::int))) [[0, 2], [255, 3]]
   \<and> error_prediction [[0, 1], [2, 3]] [[0, 2], [255, 3]] 255 = Inr [[0, 255], [0, 0]]"
  using error_mask_correct [of "[[0, 1], [2, 3]]" "[[0, 2], [255, 3]]" 255]
  by simp

end
